theory Spec2Isabelle
  imports Complex_Main "HOL-Library.Word"
begin

section \<open>Python values used by \<open>wsi/tile.py\<close>\<close>

text \<open>
  The module works on a NumPy image array of three dimensions (rows, columns,
  channels) with 8-bit samples. The array is modelled by its shape and by the
  function from an index triple to the sample stored there. The shape entries
  are natural numbers, as the entries of \<open>ndarray.shape\<close> are never negative;
  tile sizes, tile counts and tile coordinates are Python integers, hence
  \<open>int\<close>.
\<close>

record ndarray =
  rows :: nat
  cols :: nat
  channels :: nat
  pixel :: "nat \<Rightarrow> nat \<Rightarrow> nat \<Rightarrow> 8 word"

text \<open>
  The exceptions that the modelled statements can raise: the division by a
  zero tile size, the two \<open>ValueError\<close>s of NumPy (a negative dimension given
  to \<open>np.zeros\<close>, an assignment whose right-hand side cannot be broadcast
  to the shape of the target slice), and a failure raised inside one of the
  external collaborators (\<open>filter.tissue_percent\<close>, \<open>ImageFont.truetype\<close>).
\<close>

datatype error =
  ZeroDivisionError
  | ValueError_negative_dimensions
  | ValueError_broadcast
  | CollaboratorError string

type_synonym tile = "int \<times> int \<times> int \<times> int"

section \<open>Module constants\<close>

definition ROW_TILE_SIZE :: int where
  "ROW_TILE_SIZE = 128"

definition COL_TILE_SIZE :: int where
  "COL_TILE_SIZE = 128"

definition TISSUE_THRESHOLD_PERCENT :: rat where
  "TISSUE_THRESHOLD_PERCENT = 50"

section \<open>Arithmetic of the standard library\<close>

text \<open>
  \<open>a / b\<close> on two Python integers is true division; it raises
  \<open>ZeroDivisionError\<close> for a zero divisor. CPython returns the binary64
  number nearest to the exact quotient. The model takes the exact quotient,
  a rational number: the only use of a quotient in the module is as the
  argument of \<open>math.ceil\<close>, and for dimensions and tile sizes below \<open>2^53\<close>
  every binary64 number nearest to the exact quotient has the same ceiling as
  the exact quotient (lemma \<open>binary64_quotient_ceiling\<close> below). An array
  that fits into memory has dimensions far below that bound.
  \<open>math.ceil\<close> returns the least integer not below its argument.
\<close>

definition true_div :: "int \<Rightarrow> int \<Rightarrow> error + rat" where
  "true_div a b = (if b = 0 then Inl ZeroDivisionError else Inr (of_int a / of_int b))"

definition math_ceil :: "rat \<Rightarrow> int" where
  "math_ceil x = \<lceil>x\<rceil>"

text \<open>\<open>range(a, b)\<close>: the integers from \<open>a\<close> up to \<open>b - 1\<close>, none when \<open>b \<le> a\<close>.\<close>

definition py_range :: "int \<Rightarrow> int \<Rightarrow> int list" where
  "py_range a b = [a..b - 1]"

section \<open>The grid indexer\<close>

subsection \<open>\<open>get_num_tiles\<close>\<close>

definition get_num_tiles :: "ndarray \<Rightarrow> int \<Rightarrow> int \<Rightarrow> error + (int \<times> int)" where
  "get_num_tiles np_img row_tile_size col_tile_size =
     (case true_div (int (rows np_img)) row_tile_size of
        Inl e \<Rightarrow> Inl e
      | Inr qr \<Rightarrow>
          (let num_row_tiles = math_ceil qr in
           case true_div (int (cols np_img)) col_tile_size of
             Inl e \<Rightarrow> Inl e
           | Inr qc \<Rightarrow>
               (let num_col_tiles = math_ceil qc in
                Inr (num_row_tiles, num_col_tiles))))"

subsection \<open>\<open>get_tile_indices\<close>\<close>

text \<open>
  The two nested \<open>for\<close> loops run over the lists produced by \<open>range\<close>; the
  list \<open>indices\<close> that the inner body appends to is passed through both loops.
\<close>

fun col_loop :: "int \<Rightarrow> int \<Rightarrow> int \<Rightarrow> int \<Rightarrow> int \<Rightarrow> int list \<Rightarrow> tile list \<Rightarrow> tile list" where
  "col_loop cols_n col_tile_size num_col_tiles start_r end_r [] indices = indices"
| "col_loop cols_n col_tile_size num_col_tiles start_r end_r (c # cs) indices =
     (let start_c = c * col_tile_size;
          end_c = (if c < num_col_tiles - 1 then (c + 1) * col_tile_size else cols_n)
      in col_loop cols_n col_tile_size num_col_tiles start_r end_r cs
           (indices @ [(start_r, end_r, start_c, end_c)]))"

fun row_loop :: "int \<Rightarrow> int \<Rightarrow> int \<Rightarrow> int \<Rightarrow> int \<Rightarrow> int \<Rightarrow> int list \<Rightarrow> tile list \<Rightarrow> tile list" where
  "row_loop rows_n cols_n row_tile_size col_tile_size num_row_tiles num_col_tiles [] indices = indices"
| "row_loop rows_n cols_n row_tile_size col_tile_size num_row_tiles num_col_tiles (r # rs) indices =
     (let start_r = r * row_tile_size;
          end_r = (if r < num_row_tiles - 1 then (r + 1) * row_tile_size else rows_n)
      in row_loop rows_n cols_n row_tile_size col_tile_size num_row_tiles num_col_tiles rs
           (col_loop cols_n col_tile_size num_col_tiles start_r end_r
              (py_range 0 num_col_tiles) indices))"

definition get_tile_indices :: "ndarray \<Rightarrow> int \<Rightarrow> int \<Rightarrow> error + tile list" where
  "get_tile_indices np_img row_tile_size col_tile_size =
     (case get_num_tiles np_img row_tile_size col_tile_size of
        Inl e \<Rightarrow> Inl e
      | Inr (num_row_tiles, num_col_tiles) \<Rightarrow>
          Inr (row_loop (int (rows np_img)) (int (cols np_img)) row_tile_size col_tile_size
                 num_row_tiles num_col_tiles (py_range 0 num_row_tiles) []))"

section \<open>Slicing and assignment of arrays\<close>

text \<open>
  A slice \<open>a[start:stop]\<close> of an axis of length \<open>n\<close> never raises: a negative
  bound counts from the end, and both bounds are clipped into \<open>[0, n]\<close>. The
  result is the first selected index and the number of selected indices.
\<close>

definition slice_bounds :: "nat \<Rightarrow> int \<Rightarrow> int \<Rightarrow> nat \<times> nat" where
  "slice_bounds n start stop =
     (let clip = (\<lambda>i. if i < 0 then max (i + int n) 0 else min i (int n));
          lo = clip start;
          hi = clip stop
      in (nat lo, nat (hi - lo)))"

text \<open>\<open>np_img[r_s:r_e, c_s:c_e]\<close>\<close>

definition slice2 :: "ndarray \<Rightarrow> int \<Rightarrow> int \<Rightarrow> int \<Rightarrow> int \<Rightarrow> ndarray" where
  "slice2 np_img r_s r_e c_s c_e =
     (case slice_bounds (rows np_img) r_s r_e of (r0, rn) \<Rightarrow>
      case slice_bounds (cols np_img) c_s c_e of (c0, cn) \<Rightarrow>
        \<lparr>rows = rn, cols = cn, channels = channels np_img,
         pixel = (\<lambda>i j k. pixel np_img (r0 + i) (c0 + j) k)\<rparr>)"

text \<open>\<open>np.zeros([r, c, ch], dtype=np.uint8)\<close> and \<open>a.fill(v)\<close>\<close>

definition np_zeros :: "int \<Rightarrow> int \<Rightarrow> nat \<Rightarrow> error + ndarray" where
  "np_zeros r c ch =
     (if r < 0 \<or> c < 0 then Inl ValueError_negative_dimensions
      else Inr \<lparr>rows = nat r, cols = nat c, channels = ch, pixel = (\<lambda>i j k. 0)\<rparr>)"

definition fill :: "ndarray \<Rightarrow> 8 word \<Rightarrow> ndarray" where
  "fill a v = a\<lparr>pixel := (\<lambda>i j k. v)\<rparr>"

text \<open>
  \<open>a[0:r, 0:c] = b\<close>: the right-hand side is broadcast to the shape of the
  target slice, which is possible when every axis of \<open>b\<close> either has the length
  of the target axis or has length one; otherwise NumPy raises \<open>ValueError\<close>.
\<close>

definition broadcastable :: "nat \<Rightarrow> nat \<Rightarrow> bool" where
  "broadcastable src tgt \<longleftrightarrow> src = tgt \<or> src = 1"

definition bidx :: "nat \<Rightarrow> nat \<Rightarrow> nat" where
  "bidx src i = (if src = 1 then 0 else i)"

definition assign_origin_block :: "ndarray \<Rightarrow> int \<Rightarrow> int \<Rightarrow> ndarray \<Rightarrow> error + ndarray" where
  "assign_origin_block a r c b =
     (case slice_bounds (rows a) 0 r of (r0, rn) \<Rightarrow>
      case slice_bounds (cols a) 0 c of (c0, cn) \<Rightarrow>
        if broadcastable (rows b) rn \<and> broadcastable (cols b) cn
           \<and> broadcastable (channels b) (channels a)
        then Inr (a\<lparr>pixel := (\<lambda>i j k.
               if r0 \<le> i \<and> i < r0 + rn \<and> c0 \<le> j \<and> j < c0 + cn
               then pixel b (bidx (rows b) (i - r0)) (bidx (cols b) (j - c0)) (bidx (channels b) k)
               else pixel a i j k)\<rparr>)
        else Inl ValueError_broadcast)"

section \<open>String formatting\<close>

text \<open>
  The \<open>%\<close> operator with the conversions \<open>%d\<close> (decimal integer) and
  \<open>%w.pf\<close> (fixed point with \<open>p\<close> decimals, padded with blanks on the left to
  the width \<open>w\<close>). A binary64 number is a rational number, and the conversion
  rounds its exact value to the nearest multiple of \<open>10^-p\<close>, a tie going to
  the even neighbour.
\<close>

fun dec_nat :: "nat \<Rightarrow> string" where
  "dec_nat n =
     (if n < 10 then [''0123456789'' ! n]
      else dec_nat (n div 10) @ [''0123456789'' ! (n mod 10)])"

declare dec_nat.simps [simp del]

definition fmt_d :: "int \<Rightarrow> string" where
  "fmt_d i = (if i < 0 then ''-'' else []) @ dec_nat (nat \<bar>i\<bar>)"

definition round_half_even :: "rat \<Rightarrow> int" where
  "round_half_even x =
     (let n = \<lfloor>x\<rfloor>; d = x - of_int n
      in if d < 1 / 2 then n
         else if 1 / 2 < d then n + 1
         else if even n then n else n + 1)"

definition rjust :: "nat \<Rightarrow> string \<Rightarrow> string" where
  "rjust w s = replicate (w - length s) CHR '' '' @ s"

definition zfill :: "nat \<Rightarrow> string \<Rightarrow> string" where
  "zfill w s = replicate (w - length s) CHR ''0'' @ s"

definition fmt_f :: "nat \<Rightarrow> nat \<Rightarrow> rat \<Rightarrow> string" where
  "fmt_f w p x =
     (let m = nat (round_half_even (\<bar>x\<bar> * 10 ^ p))
      in rjust w ((if x < 0 then ''-'' else [])
                  @ dec_nat (m div 10 ^ p)
                  @ (if p = 0 then [] else ''.'' @ zfill p (dec_nat (m mod 10 ^ p)))))"

section \<open>The tile summary renderer\<close>

type_synonym color = "int \<times> int \<times> int"

record style_options =
  thresh_color :: color
  below_thresh_color :: color
  no_tissue_color :: color
  text_color :: color
  text_size :: int
  font_path :: string

definition default_style :: style_options where
  "default_style =
     \<lparr>thresh_color = (0, 255, 0), below_thresh_color = (255, 255, 0),
      no_tissue_color = (255, 0, 0), text_color = (255, 255, 255),
      text_size = 22, font_path = ''/Library/Fonts/Arial Bold.ttf''\<rparr>"

text \<open>
  The collaborators that are not part of the module: the tissue measurement
  \<open>filter.tissue_percent\<close> and the font loader \<open>ImageFont.truetype\<close>. Either
  may raise. The calls \<open>draw.rectangle\<close> and \<open>draw.text\<close> on the PIL image
  and the \<open>print\<close> statement are recorded in the order in which they happen.
\<close>

datatype font = FreeTypeFont string int

record collaborators =
  tissue_percent :: "ndarray \<Rightarrow> error + rat"
  truetype :: "string \<Rightarrow> int \<Rightarrow> error + font"

datatype draw_op =
  Rectangle "int \<times> int" "int \<times> int" color
  | Text "int \<times> int" string color font

record summary =
  summary_img :: ndarray
  drawing :: "draw_op list"
  printed :: "string list"

text \<open>Lines 83 and 84: the shape handed to \<open>np.zeros\<close>.\<close>

definition summary_shape :: "ndarray \<Rightarrow> int \<Rightarrow> int \<Rightarrow> error + (int \<times> int \<times> nat)" where
  "summary_shape np_img row_tile_size col_tile_size =
     (case get_num_tiles np_img row_tile_size col_tile_size of
        Inl e \<Rightarrow> Inl e
      | Inr (num_row_tiles, num_col_tiles) \<Rightarrow>
          Inr (ROW_TILE_SIZE * num_row_tiles, COL_TILE_SIZE * num_col_tiles, channels np_img))"

text \<open>Lines 83 to 88: the canvas, filled with grey, with the image copied to its origin.\<close>

definition make_summary_img :: "ndarray \<Rightarrow> int \<Rightarrow> int \<Rightarrow> error + ndarray" where
  "make_summary_img np_img row_tile_size col_tile_size =
     (case summary_shape np_img row_tile_size col_tile_size of
        Inl e \<Rightarrow> Inl e
      | Inr (r, c, ch) \<Rightarrow>
          (case np_zeros r c ch of
             Inl e \<Rightarrow> Inl e
           | Inr zeros \<Rightarrow>
               assign_origin_block (fill zeros 120)
                 (int (rows np_img)) (int (cols np_img)) np_img))"

text \<open>Lines 98 to 106: the two nested rectangles, in the colour picked by the percentage.\<close>

definition draw_outline :: "style_options \<Rightarrow> tile \<Rightarrow> rat \<Rightarrow> draw_op list" where
  "draw_outline st t tissue_percentage =
     (case t of (r_s, r_e, c_s, c_e) \<Rightarrow>
        if tissue_percentage \<ge> TISSUE_THRESHOLD_PERCENT then
          [Rectangle (c_s, r_s) (c_e - 1, r_e - 1) (thresh_color st),
           Rectangle (c_s + 1, r_s + 1) (c_e - 2, r_e - 2) (thresh_color st)]
        else if tissue_percentage > 0 \<and> tissue_percentage < TISSUE_THRESHOLD_PERCENT then
          [Rectangle (c_s, r_s) (c_e - 1, r_e - 1) (below_thresh_color st),
           Rectangle (c_s + 1, r_s + 1) (c_e - 2, r_e - 2) (below_thresh_color st)]
        else
          [Rectangle (c_s, r_s) (c_e - 1, r_e - 1) (no_tissue_color st),
           Rectangle (c_s + 1, r_s + 1) (c_e - 2, r_e - 2) (no_tissue_color st)])"

text \<open>Line 97 and line 108: the printed line and the label.\<close>

definition tile_line :: "tile \<Rightarrow> rat \<Rightarrow> string" where
  "tile_line t tissue_percentage =
     (case t of (r_s, r_e, c_s, c_e) \<Rightarrow>
        ''TILE ['' @ fmt_d r_s @ '':'' @ fmt_d r_e @ '', '' @ fmt_d c_s @ '':'' @ fmt_d c_e
        @ '']: Tissue '' @ fmt_f 0 6 tissue_percentage @ ''%'')"

definition tile_label :: "int \<Rightarrow> rat \<Rightarrow> string" where
  "tile_label count tissue_percentage =
     ''#'' @ fmt_d count @ [CHR 0x0A] @ fmt_f 4 2 tissue_percentage @ ''%''"

text \<open>
  Lines 91 to 110: the loop over \<open>tile_indices\<close>. Its state is the counter,
  the drawing calls made so far and the lines printed so far.
\<close>

fun tile_loop ::
  "collaborators \<Rightarrow> style_options \<Rightarrow> ndarray \<Rightarrow> tile list
     \<Rightarrow> int \<times> draw_op list \<times> string list \<Rightarrow> error + (int \<times> draw_op list \<times> string list)" where
  "tile_loop env st np_img [] s = Inr s"
| "tile_loop env st np_img (t # ts) (count0, draw0, out0) =
     (let count = count0 + 1 in
      case t of (r_s, r_e, c_s, c_e) \<Rightarrow>
      let np_tile = slice2 np_img r_s r_e c_s c_e in
      case tissue_percent env np_tile of
        Inl e \<Rightarrow> Inl e
      | Inr tissue_percentage \<Rightarrow>
          (let out = out0 @ [tile_line t tissue_percentage];
               draw1 = draw0 @ draw_outline st t tissue_percentage;
               label = tile_label count tissue_percentage
           in case truetype env (font_path st) (text_size st) of
                Inl e \<Rightarrow> Inl e
              | Inr font \<Rightarrow>
                  tile_loop env st np_img ts
                    (count, draw1 @ [Text (c_s + 2, r_s + 2) label (text_color st) font], out)))"

definition display_tile_summary ::
  "collaborators \<Rightarrow> ndarray \<Rightarrow> tile list \<Rightarrow> int \<Rightarrow> int \<Rightarrow> style_options \<Rightarrow> error + summary" where
  "display_tile_summary env np_img tile_indices row_tile_size col_tile_size st =
     (case make_summary_img np_img row_tile_size col_tile_size of
        Inl e \<Rightarrow> Inl e
      | Inr canvas \<Rightarrow>
          (case tile_loop env st np_img tile_indices (0, [], []) of
             Inl e \<Rightarrow> Inl e
           | Inr (count, draw, out) \<Rightarrow>
               Inr \<lparr>summary_img = canvas, drawing = draw, printed = out\<rparr>))"

section \<open>Notions used in the statements and proofs\<close>

text \<open>
  The integer form of the ceiling of a quotient, the closed form of the tile
  that the loops emit for the row band \<open>r\<close> and the column band \<open>c\<close>, the end
  of a band along one axis, the list of all tiles in the order of emission,
  and the set of pixel coordinates inside the half-open bounds of a tile.
\<close>

definition ceil_div :: "int \<Rightarrow> int \<Rightarrow> int" where
  "ceil_div a b = - ((- a) div b)"


definition tile_at :: "int \<Rightarrow> int \<Rightarrow> int \<Rightarrow> int \<Rightarrow> int \<Rightarrow> int \<Rightarrow> int \<Rightarrow> int \<Rightarrow> tile" where
  "tile_at rows_n cols_n row_tile_size col_tile_size num_row_tiles num_col_tiles r c =
     (r * row_tile_size,
      if r < num_row_tiles - 1 then (r + 1) * row_tile_size else rows_n,
      c * col_tile_size,
      if c < num_col_tiles - 1 then (c + 1) * col_tile_size else cols_n)"



text \<open>
  The finite binary64 numbers: an integer significand of fewer than 54 bits,
  scaled by a power of two whose exponent lies in the range of the format
  (subnormal numbers included).
\<close>

definition binary64 :: "rat set" where
  "binary64 = {of_int m * 2 powi e | m e. \<bar>m\<bar> < 2 ^ 53 \<and> - 1074 \<le> e \<and> e \<le> 971}"

text \<open>
  The two nested rectangles drawn around a tile in one colour, the test
  whether a drawing call is a text label, and the decimal digit character.
\<close>

definition double_rectangle :: "tile \<Rightarrow> color \<Rightarrow> draw_op list" where
  "double_rectangle t col =
     (case t of (r_s, r_e, c_s, c_e) \<Rightarrow>
        [Rectangle (c_s, r_s) (c_e - 1, r_e - 1) col,
         Rectangle (c_s + 1, r_s + 1) (c_e - 2, r_e - 2) col])"


definition digit :: "nat \<Rightarrow> char" where
  "digit d = ''0123456789'' ! d"

text \<open>
  The image of the example in the specification: 300 rows, 200 columns, three
  channels. A second image of the same shape with other samples, and a pair
  of collaborators that always succeed, serve as concrete inputs.
\<close>

definition example_img :: ndarray where
  "example_img = \<lparr>rows = 300, cols = 200, channels = 3, pixel = (\<lambda>i j k. 0)\<rparr>"

definition example_img_white :: ndarray where
  "example_img_white = \<lparr>rows = 300, cols = 200, channels = 3, pixel = (\<lambda>i j k. 255)\<rparr>"

definition example_env :: collaborators where
  "example_env =
     \<lparr>tissue_percent = (\<lambda>a. Inr (of_nat (rows a) / 8)),
      truetype = (\<lambda>p s. Inr (FreeTypeFont p s))\<rparr>"

section \<open>The arithmetic of the grid\<close>

lemma math_ceil_quotient: "math_ceil (of_int a / of_int b) = ceil_div a b"
  by (simp add: math_ceil_def ceil_div_def ceiling_divide_eq_div)

lemma ceil_div_upper: "0 < b \<Longrightarrow> a \<le> ceil_div a b * b"
proof -
  assume b: "0 < b"
  have "- a = (- a) div b * b + (- a) mod b" by simp
  moreover have "0 \<le> (- a) mod b" using b by simp
  ultimately have "(- a) div b * b \<le> - a" by linarith
  then show ?thesis by (simp add: ceil_div_def)
qed


lemma ceil_div_nonneg: "0 < b \<Longrightarrow> 0 \<le> a \<Longrightarrow> 0 \<le> ceil_div a b"
proof (rule ccontr)
  assume b: "0 < b" and a: "0 \<le> a" and "\<not> 0 \<le> ceil_div a b"
  then have "ceil_div a b \<le> - 1" by simp
  then have "ceil_div a b * b \<le> (- 1) * b"
    using b by (intro mult_right_mono) simp_all
  with ceil_div_upper [OF b, of a] a b show False by simp
qed

lemma get_num_tiles_eq:
  "row_tile_size \<noteq> 0 \<Longrightarrow> col_tile_size \<noteq> 0 \<Longrightarrow>
   get_num_tiles np_img row_tile_size col_tile_size =
     Inr (ceil_div (int (rows np_img)) row_tile_size, ceil_div (int (cols np_img)) col_tile_size)"
  using math_ceil_quotient [of "int (rows np_img)" row_tile_size]
    math_ceil_quotient [of "int (cols np_img)" col_tile_size]
  by (simp add: get_num_tiles_def true_div_def)

lemma col_loop_eq:
  "col_loop cols_n cts nc sr er cs acc =
     acc @ map (\<lambda>c. (sr, er, c * cts, if c < nc - 1 then (c + 1) * cts else cols_n)) cs"
  by (induction cs arbitrary: acc) (simp_all add: Let_def)

lemma row_loop_eq:
  "row_loop rows_n cols_n rts cts nr nc rs acc =
     acc @ map (\<lambda>(r, c). tile_at rows_n cols_n rts cts nr nc r c) (List.product rs (py_range 0 nc))"
  by (induction rs arbitrary: acc) (simp_all add: Let_def col_loop_eq tile_at_def)

lemma get_tile_indices_eq:
  "row_tile_size \<noteq> 0 \<Longrightarrow> col_tile_size \<noteq> 0 \<Longrightarrow>
   get_tile_indices np_img row_tile_size col_tile_size =
     Inr (map (\<lambda>(r, c). tile_at (int (rows np_img)) (int (cols np_img)) row_tile_size col_tile_size
                 (ceil_div (int (rows np_img)) row_tile_size) (ceil_div (int (cols np_img)) col_tile_size) r c)
            (List.product (py_range 0 (ceil_div (int (rows np_img)) row_tile_size))
                          (py_range 0 (ceil_div (int (cols np_img)) col_tile_size))))"
  by (simp add: get_tile_indices_def get_num_tiles_eq row_loop_eq)

lemma length_py_range: "length (py_range 0 n) = nat n"
  by (simp add: py_range_def)

lemma nth_py_range: "k < nat n \<Longrightarrow> py_range 0 n ! k = int k"
  by (simp add: py_range_def)


lemma grid_nth_nat:
  assumes "r' < n" and "c' < m"
  shows "r' * m + c' < n * m"
    and "List.product (py_range 0 (int n)) (py_range 0 (int m)) ! (r' * m + c') = (int r', int c')"
proof -
  have "r' * m + c' < r' * m + m" using assms by simp
  also have "\<dots> = Suc r' * m" by simp
  also have "\<dots> \<le> n * m" using assms by (intro mult_le_mono1) simp
  finally show bound: "r' * m + c' < n * m" .
  have dm: "(r' * m + c') div m = r'" "(r' * m + c') mod m = c'"
    using assms by simp_all
  show "List.product (py_range 0 (int n)) (py_range 0 (int m)) ! (r' * m + c') = (int r', int c')"
    using bound assms by (simp add: product_nth length_py_range dm nth_py_range)
qed

lemma grid_nth:
  assumes r: "0 \<le> r" "r < nr" and c: "0 \<le> c" "c < nc"
  shows "nat (r * nc + c) < nat nr * nat nc"
    and "List.product (py_range 0 nr) (py_range 0 nc) ! nat (r * nc + c) = (r, c)"
proof -
  have n: "nat (r * nc + c) = nat r * nat nc + nat c"
    using r c by (simp add: nat_add_distrib nat_mult_distrib)
  have lt: "nat r < nat nr" "nat c < nat nc"
    using r c by simp_all
  have ints: "int (nat nr) = nr" "int (nat nc) = nc" "int (nat r) = r" "int (nat c) = c"
    using r c by simp_all
  show "nat (r * nc + c) < nat nr * nat nc"
    unfolding n by (rule grid_nth_nat(1) [OF lt])
  show "List.product (py_range 0 nr) (py_range 0 nc) ! nat (r * nc + c) = (r, c)"
    using grid_nth_nat(2) [OF lt] unfolding n ints .
qed















lemma example_num_tiles: "get_num_tiles example_img 128 128 = Inr (3, 2)"
  by (simp add: get_num_tiles_eq ceil_div_def example_img_def)


section \<open>The renderer: loop, canvas and formatting\<close>






lemma dec_nat_nonempty: "dec_nat n \<noteq> []"
  by (subst dec_nat.simps) simp

lemma dec_nat_two_digits:
  assumes "n < 100"
  shows "zfill 2 (dec_nat n) = [digit (n div 10), digit (n mod 10)]"
proof (cases "n < 10")
  case True
  then have "dec_nat n = [digit n]" by (subst dec_nat.simps) (simp add: digit_def)
  with True show ?thesis by (simp add: zfill_def digit_def)
next
  case False
  with assms have "n div 10 < 10" by simp
  then have "dec_nat (n div 10) = [digit (n div 10)]"
    by (subst dec_nat.simps) (simp add: digit_def)
  with False have "dec_nat n = [digit (n div 10), digit (n mod 10)]"
    by (subst dec_nat.simps) (simp add: digit_def)
  then show ?thesis by (simp add: zfill_def)
qed

lemma round_half_even_error: "\<bar>of_int (round_half_even x) - x\<bar> \<le> 1 / 2"
proof -
  have "of_int \<lfloor>x\<rfloor> \<le> x" "x < of_int \<lfloor>x\<rfloor> + 1" by linarith+
  then show ?thesis
    by (auto simp: round_half_even_def Let_def abs_le_iff)
qed

lemma fmt_f_two_decimals:
  "fmt_f 4 2 x =
     (let m = nat (round_half_even (\<bar>x\<bar> * 100))
      in (if x < 0 then ''-'' else []) @ dec_nat (m div 100) @ ''.''
         @ [digit (m mod 100 div 10), digit (m mod 10)])"
proof -
  define m where "m = nat (round_half_even (\<bar>x\<bar> * 100))"
  have two: "zfill 2 (dec_nat (m mod 100)) = [digit (m mod 100 div 10), digit (m mod 10)]"
    using dec_nat_two_digits [of "m mod 100"] by (simp add: mod_mod_cancel)
  have "1 \<le> length (dec_nat (m div 100))"
    using dec_nat_nonempty [of "m div 100"] by (cases "dec_nat (m div 100)") simp_all
  then have "rjust 4 (s @ dec_nat (m div 100) @ ''.'' @ [a, b]) = s @ dec_nat (m div 100) @ ''.'' @ [a, b]"
    for s a b by (simp add: rjust_def)
  then show ?thesis
    using two by (simp add: fmt_f_def Let_def flip: m_def)
qed

lemma summary_shape_eq:
  "row_tile_size \<noteq> 0 \<Longrightarrow> col_tile_size \<noteq> 0 \<Longrightarrow>
   summary_shape np_img row_tile_size col_tile_size =
     Inr (ROW_TILE_SIZE * ceil_div (int (rows np_img)) row_tile_size,
          COL_TILE_SIZE * ceil_div (int (cols np_img)) col_tile_size,
          channels np_img)"
  by (simp add: summary_shape_def get_num_tiles_eq)






lemma tile_loop_completes:
  assumes "\<forall>t \<in> set ts. case t of (r_s, r_e, c_s, c_e) \<Rightarrow>
             \<exists>p. tissue_percent env (slice2 np_img r_s r_e c_s c_e) = Inr p"
    and "\<exists>font. truetype env (font_path st) (text_size st) = Inr font"
  shows "\<exists>out. tile_loop env st np_img ts s0 = Inr out"
  using assms(1)
proof (induction ts arbitrary: s0)
  case Nil
  show ?case by (rule exI [of _ s0]) simp
next
  case (Cons t ts)
  obtain r_s r_e c_s c_e where t: "t = (r_s, r_e, c_s, c_e)" by (cases t)
  obtain count0 draw0 out0 where s0: "s0 = (count0, draw0, out0)" by (cases s0)
  from Cons.prems obtain p where p: "tissue_percent env (slice2 np_img r_s r_e c_s c_e) = Inr p"
    by (auto simp: t)
  from assms(2) obtain font where f: "truetype env (font_path st) (text_size st) = Inr font" ..
  from Cons.prems have "\<forall>t \<in> set ts. case t of (r_s, r_e, c_s, c_e) \<Rightarrow>
             \<exists>p. tissue_percent env (slice2 np_img r_s r_e c_s c_e) = Inr p"
    by simp
  from Cons.IH [OF this] show ?case
    by (simp add: t s0 p f Let_def)
qed

lemma display_tile_summary_completes:
  assumes "make_summary_img np_img row_tile_size col_tile_size = Inr canvas"
    and "\<forall>t \<in> set tile_indices. case t of (r_s, r_e, c_s, c_e) \<Rightarrow>
             \<exists>p. tissue_percent env (slice2 np_img r_s r_e c_s c_e) = Inr p"
    and "\<exists>font. truetype env (font_path st) (text_size st) = Inr font"
  shows "\<exists>s. display_tile_summary env np_img tile_indices row_tile_size col_tile_size st = Inr s"
proof -
  from tile_loop_completes [OF assms(2,3)]
  obtain out where "tile_loop env st np_img tile_indices (0, [], []) = Inr out" ..
  then show ?thesis
    by (cases out) (simp add: display_tile_summary_def assms(1))
qed

section \<open>The binary64 quotient has the ceiling of the exact quotient\<close>

text \<open>
  Whatever binary64 number nearest to \<open>a / b\<close> the division returns (the
  lemma does not depend on how a tie is broken), its ceiling is the ceiling
  of the exact quotient, provided \<open>0 \<le> a < 2^53\<close> and \<open>0 < b < 2^53\<close>.
\<close>

lemma of_int_binary64: "\<bar>m\<bar> < 2 ^ 53 \<Longrightarrow> of_int m \<in> binary64"
  unfolding binary64_def by (rule CollectI, rule exI [of _ m], rule exI [of _ 0]) simp

lemma dyadic_binary64:
  assumes "\<bar>m\<bar> < 2 ^ 53" and "t \<le> 1074"
  shows "of_int m / 2 ^ t \<in> binary64"
  unfolding binary64_def
  by (rule CollectI, rule exI [of _ m], rule exI [of _ "- int t"])
     (use assms in \<open>simp add: power_int_minus divide_inverse\<close>)

lemma binary64_quotient_ceiling:
  fixes a b :: int and y :: rat
  assumes a: "0 \<le> a" "a < 2 ^ 53" and b: "0 < b" "b < 2 ^ 53"
    and y: "y \<in> binary64"
    and nearest: "\<forall>z\<in>binary64. \<bar>of_int a / of_int b - y\<bar> \<le> \<bar>of_int a / of_int b - z\<bar>"
  shows "\<lceil>y\<rceil> = \<lceil>of_int a / of_int b :: rat\<rceil>"
proof -
  define x :: rat where "x = of_int a / of_int b"
  define k where "k = \<lceil>x\<rceil>"
  have bpos: "(0::rat) < of_int b" using b by simp
  have x0: "0 \<le> x" using a b by (simp add: x_def)
  have xa: "x \<le> of_int a"
  proof -
    have "of_int a \<le> (of_int a :: rat) * of_int b"
      using a b by (simp add: mult_le_cancel_left1 flip: of_int_mult)
    then show ?thesis using bpos by (simp add: x_def pos_divide_le_eq)
  qed
  have k_hi: "x \<le> of_int k" by (simp add: k_def)
  have k_lo: "of_int k - 1 < x" unfolding k_def by linarith
  have k0: "0 \<le> k" using x0 by (simp add: k_def)
  have ka: "k \<le> a" unfolding k_def using xa by (rule ceiling_le)
  have "of_int k \<in> binary64"
    by (rule of_int_binary64) (use k0 ka a in simp)
  from bspec [OF nearest this] have n1: "\<bar>x - y\<bar> \<le> \<bar>x - of_int k\<bar>"
    by (simp only: x_def)
  have "of_int (k - 1) \<in> binary64"
    by (rule of_int_binary64) (use k0 ka a in simp)
  from bspec [OF nearest this] have n2: "\<bar>x - y\<bar> \<le> \<bar>x - of_int (k - 1)\<bar>"
    by (simp only: x_def)
  from n1 k_hi have y_hi: "y \<le> of_int k" by linarith
  from n2 k_lo have y_lo: "of_int k - 1 \<le> y" by simp
  have "of_int k - 1 \<noteq> y"
  proof
    assume eq: "of_int k - 1 = y"
    define d where "d = x - (of_int k - 1)"
    have d0: "0 < d" using k_lo by (simp add: d_def)
    have dist: "\<bar>x - y\<bar> = d" using d0 by (simp add: d_def flip: eq)
    have "x \<noteq> 0"
    proof
      assume "x = 0"
      then have "k = 0" by (simp add: k_def)
      with n1 \<open>x = 0\<close> have "y = 0" by simp
      with eq \<open>k = 0\<close> show False by simp
    qed
    with x0 have "0 < x" by simp
    then have k1: "1 \<le> k" unfolding k_def by linarith
    \<comment> \<open>the distance to the integer below is at least \<open>1 / b\<close>\<close>
    have "(of_int k - 1) * of_int b < (of_int a :: rat)"
      using k_lo bpos by (simp add: x_def pos_less_divide_eq)
    then have "(of_int ((k - 1) * b) :: rat) < of_int a" by simp
    then have lt: "(k - 1) * b < a" by (simp only: of_int_less_iff)
    then have "1 \<le> a - (k - 1) * b" by simp
    then have "(1::rat) \<le> of_int (a - (k - 1) * b)" by (simp only: of_int_1_le_iff)
    also have "\<dots> = d * of_int b"
      using bpos by (simp add: d_def x_def algebra_simps)
    finally have db: "1 / of_int b \<le> d"
      using bpos by (simp add: pos_divide_le_eq)
    \<comment> \<open>a power of two between \<open>b / 2\<close> and \<open>b\<close>\<close>
    from b have "1 \<le> nat b" by simp
    from ex_power_ivl1 [OF _ this, of 2] obtain t where t: "2 ^ t \<le> nat b" "nat b < 2 ^ (t + 1)"
      by auto
    from t(1) b have tb: "(2::int) ^ t \<le> b"
      by (metis int_nat_eq less_imp_le of_nat_le_iff of_nat_numeral of_nat_power)
    from t(2) b have bt: "b < (2::int) ^ (t + 1)"
      by (metis int_nat_eq less_imp_le of_nat_less_iff of_nat_numeral of_nat_power)
    from tb b have p53: "(2::int) ^ t < 2 ^ 53" by linarith
    have t53: "t < 53"
      by (rule power_less_imp_less_exp [where a = "2::int"]) (use p53 in simp_all)
    define m where "m = (k - 1) * 2 ^ t + 1"
    have "(k - 1) * 2 ^ t \<le> (k - 1) * b"
      using tb k1 by (intro mult_left_mono) simp_all
    with lt have "m \<le> a" by (simp add: m_def)
    moreover have "0 < m" using k1 by (simp add: m_def)
    ultimately have "\<bar>m\<bar> < 2 ^ 53" using a by simp
    then have zin: "of_int m / 2 ^ t \<in> binary64"
      using t53 by (intro dyadic_binary64) simp_all
    define h :: rat where "h = 1 / 2 ^ t"
    have z: "of_int m / 2 ^ t = of_int k - 1 + h"
      by (simp add: m_def h_def field_simps)
    have h0: "0 < h" by (simp add: h_def)
    have "(of_int b :: rat) < 2 ^ (t + 1)"
      using bt by (metis of_int_less_iff of_int_numeral of_int_power)
    then have "h * of_int b < 2"
      by (simp add: h_def field_simps)
    then have "h < 2 / of_int b" using bpos by (simp add: pos_less_divide_eq)
    with db have h2: "h < 2 * d" by simp
    have "\<bar>x - of_int m / 2 ^ t\<bar> = \<bar>d - h\<bar>" by (simp add: z d_def)
    also have "\<dots> < d" using h0 h2 by (simp add: abs_less_iff)
    finally have "\<bar>x - of_int m / 2 ^ t\<bar> < \<bar>x - y\<bar>" by (simp add: dist)
    with nearest zin show False by (auto simp: x_def not_less [symmetric])
  qed
  with y_lo have "of_int k - 1 < y" by simp
  then have "\<lceil>y\<rceil> = k" using y_hi by (rule ceiling_unique)
  then show ?thesis by (simp add: k_def x_def)
qed
section \<open>Properties of the grid indexer\<close>



text \<open>
  Claim C3. For every image and positive tile sizes, \<open>get_tile_indices\<close>
  returns a list of exactly \<open>num_row_tiles * num_col_tiles\<close> tuples in row-major
  order: the tile of the row band \<open>r\<close> and the column band \<open>c\<close> stands at the
  position \<open>r * num_col_tiles + c\<close>. Its rows start at \<open>r * row_tile_size\<close> and
  end at \<open>(r + 1) * row_tile_size\<close>, except in the final band, which ends at
  the number of rows of the image; the columns follow the same rule with
  \<open>col_tile_size\<close> and the number of columns.
\<close>

theorem get_tile_indices_row_major:
  assumes "0 < row_tile_size" and "0 < col_tile_size"
  shows "\<exists>num_row_tiles num_col_tiles indices.
           get_num_tiles np_img row_tile_size col_tile_size = Inr (num_row_tiles, num_col_tiles)
         \<and> get_tile_indices np_img row_tile_size col_tile_size = Inr indices
         \<and> int (length indices) = num_row_tiles * num_col_tiles
         \<and> (\<forall>r c. 0 \<le> r \<and> r < num_row_tiles \<and> 0 \<le> c \<and> c < num_col_tiles \<longrightarrow>
               indices ! nat (r * num_col_tiles + c) =
                 (r * row_tile_size,
                  if r < num_row_tiles - 1 then (r + 1) * row_tile_size else int (rows np_img),
                  c * col_tile_size,
                  if c < num_col_tiles - 1 then (c + 1) * col_tile_size else int (cols np_img)))"
proof -
  define nr where "nr = ceil_div (int (rows np_img)) row_tile_size"
  define nc where "nc = ceil_div (int (cols np_img)) col_tile_size"
  define f where "f = (\<lambda>(r, c). tile_at (int (rows np_img)) (int (cols np_img))
                         row_tile_size col_tile_size nr nc r c)"
  define indices where "indices = map f (List.product (py_range 0 nr) (py_range 0 nc))"
  have nn: "0 \<le> nr" "0 \<le> nc"
    using assms by (simp_all add: nr_def nc_def ceil_div_nonneg)
  have 1: "get_num_tiles np_img row_tile_size col_tile_size = Inr (nr, nc)"
    using assms by (simp add: get_num_tiles_eq nr_def nc_def)
  have 2: "get_tile_indices np_img row_tile_size col_tile_size = Inr indices"
    using assms by (simp add: get_tile_indices_eq indices_def f_def nr_def nc_def)
  have 3: "int (length indices) = nr * nc"
    using nn by (simp add: indices_def length_py_range)
  have 4: "indices ! nat (r * nc + c) =
             (r * row_tile_size,
              if r < nr - 1 then (r + 1) * row_tile_size else int (rows np_img),
              c * col_tile_size,
              if c < nc - 1 then (c + 1) * col_tile_size else int (cols np_img))"
    if "0 \<le> r \<and> r < nr \<and> 0 \<le> c \<and> c < nc" for r c
  proof -
    from that have rc: "0 \<le> r" "r < nr" "0 \<le> c" "c < nc" by simp_all
    have "indices ! nat (r * nc + c) = f (r, c)"
      using grid_nth [OF rc] by (simp add: indices_def length_py_range)
    then show ?thesis by (simp add: f_def tile_at_def)
  qed
  from 1 2 3 4 show ?thesis by blast
qed

theorem get_tile_indices_row_major_witness:
  "(0::int) < 128 \<and>
   (\<exists>indices. get_tile_indices example_img 128 128 = Inr indices
      \<and> length indices = 6 \<and> indices ! 5 = (256, 300, 128, 200))"
proof -
  have pos: "(0::int) < 128" by simp
  from get_tile_indices_row_major [OF pos pos, of example_img]
  obtain nr nc indices where n: "get_num_tiles example_img 128 128 = Inr (nr, nc)"
    and i: "get_tile_indices example_img 128 128 = Inr indices"
    and l: "int (length indices) = nr * nc"
    and t: "\<forall>r c. 0 \<le> r \<and> r < nr \<and> 0 \<le> c \<and> c < nc \<longrightarrow>
              indices ! nat (r * nc + c) =
                (r * 128, if r < nr - 1 then (r + 1) * 128 else int (rows example_img),
                 c * 128, if c < nc - 1 then (c + 1) * 128 else int (cols example_img))"
    by blast
  from n have nrc: "nr = 3" "nc = 2" by (simp_all add: example_num_tiles)
  from l have "length indices = 6" by (simp add: nrc)
  moreover from t [rule_format, of 2 1] have "indices ! 5 = (256, 300, 128, 200)"
    by (simp add: nrc example_img_def)
  ultimately show ?thesis using i by simp
qed






section \<open>Properties of the tile summary renderer\<close>

text \<open>
  Claim C5. For a tissue percentage \<open>p\<close> between 0 and 100 and the threshold
  of 50, the rectangles that \<open>display_tile_summary\<close> draws for a tile fall
  into exactly one of three buckets: \<open>p \<ge> 50\<close> gives \<open>thresh_color\<close>
  (so a percentage equal to the threshold is above the threshold),
  \<open>0 < p < 50\<close> gives \<open>below_thresh_color\<close>, and \<open>p = 0\<close> gives
  \<open>no_tissue_color\<close>; exactly one of the three conditions holds.
\<close>

theorem draw_outline_partition:
  assumes "0 \<le> p" and "p \<le> 100"
  shows "(50 \<le> p \<longrightarrow> draw_outline st t p = double_rectangle t (thresh_color st))
       \<and> (0 < p \<and> p < 50 \<longrightarrow> draw_outline st t p = double_rectangle t (below_thresh_color st))
       \<and> (p = 0 \<longrightarrow> draw_outline st t p = double_rectangle t (no_tissue_color st))
       \<and> ((50 \<le> p \<and> \<not> (0 < p \<and> p < 50) \<and> p \<noteq> 0)
          \<or> (\<not> 50 \<le> p \<and> (0 < p \<and> p < 50) \<and> p \<noteq> 0)
          \<or> (\<not> 50 \<le> p \<and> \<not> (0 < p \<and> p < 50) \<and> p = 0))"
proof -
  obtain r_s r_e c_s c_e where t: "t = (r_s, r_e, c_s, c_e)" by (cases t)
  have a: "draw_outline st t p = double_rectangle t (thresh_color st)" if "50 \<le> p"
    using that by (simp add: draw_outline_def double_rectangle_def t TISSUE_THRESHOLD_PERCENT_def)
  have b: "draw_outline st t p = double_rectangle t (below_thresh_color st)" if "0 < p \<and> p < 50"
    using that by (simp add: draw_outline_def double_rectangle_def t TISSUE_THRESHOLD_PERCENT_def)
  have c: "draw_outline st t p = double_rectangle t (no_tissue_color st)" if "p = 0"
    using that by (simp add: draw_outline_def double_rectangle_def t TISSUE_THRESHOLD_PERCENT_def)
  have d: "(50 \<le> p \<and> \<not> (0 < p \<and> p < 50) \<and> p \<noteq> 0)
          \<or> (\<not> 50 \<le> p \<and> (0 < p \<and> p < 50) \<and> p \<noteq> 0)
          \<or> (\<not> 50 \<le> p \<and> \<not> (0 < p \<and> p < 50) \<and> p = 0)"
    using assms by auto
  from a b c d show ?thesis by blast
qed

theorem draw_outline_partition_witness:
  "(0::rat) \<le> 50 \<and> (50::rat) \<le> 100
   \<and> draw_outline default_style (0, 128, 0, 128) 50
       = [Rectangle (0, 0) (127, 127) (0, 255, 0), Rectangle (1, 1) (126, 126) (0, 255, 0)]"
  using draw_outline_partition [of 50 default_style "(0, 128, 0, 128)"]
  by (simp add: double_rectangle_def default_style_def)

text \<open>
  Claim C8. \<open>get_tile_indices\<close> is a function of the dimensions of the image
  and of the two tile sizes alone: two calls with images of the same numbers
  of rows and columns (whatever their samples) and the same tile sizes give
  the same result, the same tiles in the same order or the same exception.
  The function reads and writes no state outside its arguments; the list it
  builds is created anew in every call.
\<close>

theorem get_tile_indices_pure:
  assumes "rows a = rows b" and "cols a = cols b"
  shows "get_tile_indices a row_tile_size col_tile_size
           = get_tile_indices b row_tile_size col_tile_size"
  unfolding get_tile_indices_def get_num_tiles_def assms by (rule refl)

theorem get_tile_indices_pure_witness:
  "rows example_img = rows example_img_white \<and> cols example_img = cols example_img_white
   \<and> pixel example_img 0 0 0 \<noteq> pixel example_img_white 0 0 0
   \<and> get_tile_indices example_img 128 128 = get_tile_indices example_img_white 128 128"
  using get_tile_indices_pure [of example_img example_img_white 128 128]
  by (simp add: example_img_def example_img_white_def)





text \<open>
  Claim C1 says that the canvas has \<open>row_tile_size * num_row_tiles\<close> rows and
  \<open>col_tile_size * num_col_tiles\<close> columns for the tile sizes passed to the
  call. The code multiplies the tile counts by the module constants
  \<open>ROW_TILE_SIZE\<close> and \<open>COL_TILE_SIZE\<close> instead, although it computes the counts
  from the parameters. For the example image of 300 by 200 pixels and tile
  sizes of 256 the counts are 2 and 1 and the canvas has 256 by 128 pixels,
  not 512 by 256; the image does not fit and the copy raises. For tile sizes
  of 64 the canvas has 640 by 512 pixels, not 320 by 256.
\<close>

theorem summary_shape_uses_module_constants:
  "get_num_tiles example_img 256 256 = Inr (2, 1)
   \<and> summary_shape example_img 256 256 = Inr (256, 128, 3)
   \<and> make_summary_img example_img 256 256 = Inl ValueError_broadcast
   \<and> get_tile_indices example_img 256 256 = Inr [(0, 256, 0, 200), (256, 300, 0, 200)]
   \<and> display_tile_summary example_env example_img [(0, 256, 0, 200), (256, 300, 0, 200)]
        256 256 default_style = Inl ValueError_broadcast
   \<and> get_num_tiles example_img 64 64 = Inr (5, 4)
   \<and> summary_shape example_img 64 64 = Inr (640, 512, 3)"
proof -
  have n: "get_num_tiles example_img 256 256 = Inr (2, 1)"
    "get_num_tiles example_img 64 64 = Inr (5, 4)"
    by (simp_all add: get_num_tiles_eq ceil_div_def example_img_def)
  have s: "summary_shape example_img 256 256 = Inr (256, 128, 3)"
    "summary_shape example_img 64 64 = Inr (640, 512, 3)"
    by (simp_all add: summary_shape_def n ROW_TILE_SIZE_def COL_TILE_SIZE_def)
      (simp_all add: example_img_def)
  have m: "make_summary_img example_img 256 256 = Inl ValueError_broadcast"
    by (simp add: make_summary_img_def s np_zeros_def assign_origin_block_def slice_bounds_def
          fill_def broadcastable_def Let_def)
      (simp add: example_img_def)
  have t: "get_tile_indices example_img 256 256 = Inr [(0, 256, 0, 200), (256, 300, 0, 200)]"
    by (simp add: get_tile_indices_def n py_range_def upto_rec1 Let_def)
      (simp add: example_img_def)
  have d: "display_tile_summary example_env example_img [(0, 256, 0, 200), (256, 300, 0, 200)]
        256 256 default_style = Inl ValueError_broadcast"
    by (simp add: display_tile_summary_def m)
  from n s m t d show ?thesis by simp
qed

end
